theory Spec2Isabelle
  imports Complex_Main
begin

section \<open>Data model\<close>

text \<open>
  The type declarations (\<open>types.ts\<close>) are read off the way the handlers use the values:
  an optional property is an \<open>option\<close>, an optional boolean is read by its truthiness
  (absent counts as \<open>False\<close>), a string that the source tests with \<open>if (s)\<close> or
  \<open>s || '0'\<close> is falsy when empty.
\<close>

record State =
  state_id :: string                     \<comment> \<open>\<open>id\<close>\<close>
  title :: string
  roles :: "string list option"
  transitions :: "string list option"
  requireAssignment :: bool
  requireValidation :: bool

record Role =
  name :: string

record CurrentUser =
  user_id :: string                      \<comment> \<open>\<open>id\<close>\<close>
  user_roles :: "Role list"              \<comment> \<open>\<open>roles\<close>\<close>

record Metadata =
  documentId :: string
  state :: string
  assignees :: "string list option"
  orderRank :: "string option"

record Document =
  doc_id :: string                       \<comment> \<open>\<open>_id\<close>\<close>
  doc_type :: string                     \<comment> \<open>\<open>_type\<close>\<close>
  metadata :: "Metadata option"          \<comment> \<open>\<open>_metadata\<close>\<close>


section \<open>Dependency guard (components/DependencyManager.tsx)\<close>

text \<open>
  The component receives its own document id and the \<open>currentDependencies\<close> list as
  props. Both handlers read \<open>currentDependencies\<close> from the props and hand the new list
  to \<open>onDependenciesChange\<close>; the model takes the props as arguments and returns what
  the handler reports. The parameter of \<open>handleAddDependency\<close> is called \<open>documentId\<close>
  in the source and shadows the prop of the same name, so the handler never reads the
  component's own id: \<open>ownId\<close> is the prop, \<open>candidateId\<close> the parameter.
\<close>

datatype add_result =
    Duplicate           \<comment> \<open>toast \<open>Dependency already added\<close>, early return\<close>
  | Circular            \<comment> \<open>toast \<open>Circular dependency\<close>, early return\<close>
  | Added "string list" \<comment> \<open>\<open>onDependenciesChange(newDependencies)\<close>\<close>

definition hasCircularDependency :: "string list \<Rightarrow> string \<Rightarrow> bool" where
  "hasCircularDependency currentDependencies newDependencyId =
     (newDependencyId \<in> set currentDependencies)"

definition handleAddDependency :: "string \<Rightarrow> string list \<Rightarrow> string \<Rightarrow> add_result" where
  "handleAddDependency ownId currentDependencies candidateId =
     (if candidateId \<in> set currentDependencies then Duplicate
      else if hasCircularDependency currentDependencies candidateId then Circular
      else Added (currentDependencies @ [candidateId]))"

definition handleRemoveDependency :: "string list \<Rightarrow> string \<Rightarrow> string list" where
  "handleRemoveDependency currentDependencies targetId =
     filter (\<lambda>i. i \<noteq> targetId) currentDependencies"


section \<open>Transition permission (components/QuickEditModal.tsx, components/CalendarView.tsx)\<close>

text \<open>
  The two copies differ only in where the assignees come from (\<open>document.assignees\<close>,
  \<open>event.assignees\<close>); they are the argument \<open>documentAssignees\<close>. The result is read by
  its truthiness, as \<open>Array.filter\<close> does with it.
\<close>

definition userRoleCanUpdateState :: "CurrentUser \<Rightarrow> State \<Rightarrow> bool" where
  "userRoleCanUpdateState currentUser targetState =
     (case roles targetState of
        None \<Rightarrow> True                       \<comment> \<open>\<open>undefined !== 0\<close>\<close>
      | Some rs \<Rightarrow>
          if user_roles currentUser \<noteq> [] \<and> rs \<noteq> []
          then list_ex (\<lambda>userRole. name userRole \<in> set rs) (user_roles currentUser)
          else length rs \<noteq> 0)"

definition userAssignmentCanUpdateState ::
    "CurrentUser \<Rightarrow> State \<Rightarrow> string list option \<Rightarrow> bool" where
  "userAssignmentCanUpdateState currentUser targetState documentAssignees =
     (if requireAssignment targetState
      then (case documentAssignees of
              None \<Rightarrow> False
            | Some as \<Rightarrow> as \<noteq> [] \<and> user_id currentUser \<in> set as)
      else True)"

definition canUserTransitionToState ::
    "CurrentUser option \<Rightarrow> State option \<Rightarrow> string list option \<Rightarrow> bool" where
  "canUserTransitionToState currentUser targetState documentAssignees =
     (case (currentUser, targetState) of
        (Some u, Some t) \<Rightarrow>
          userRoleCanUpdateState u t \<and> userAssignmentCanUpdateState u t documentAssignees
      | _ \<Rightarrow> False)"


section \<open>List filter (helpers/filterItemsAndSort)\<close>

text \<open>
  \<open>String.prototype.localeCompare\<close> depends on the host's collation, so it is the
  parameter \<open>localeCompare\<close>. \<open>Array.prototype.sort\<close> is stable; \<open>sort_by\<close> is the stable
  insertion sort for a comparator.
\<close>

fun insert_by :: "('a \<Rightarrow> 'a \<Rightarrow> int) \<Rightarrow> 'a \<Rightarrow> 'a list \<Rightarrow> 'a list" where
  "insert_by cmp x [] = [x]"
| "insert_by cmp x (y # ys) =
     (if cmp x y \<le> 0 then x # y # ys else y # insert_by cmp x ys)"

definition sort_by :: "('a \<Rightarrow> 'a \<Rightarrow> int) \<Rightarrow> 'a list \<Rightarrow> 'a list" where
  "sort_by cmp xs = foldr (insert_by cmp) xs []"

definition truthyRank :: "Document option \<Rightarrow> string option" where
  \<comment> \<open>\<open>item?._metadata?.orderRank\<close> when it is truthy\<close>
  "truthyRank item =
     (case item of
        None \<Rightarrow> None
      | Some d \<Rightarrow>
          (case metadata d of
             None \<Rightarrow> None
           | Some m \<Rightarrow>
               (case orderRank m of
                  None \<Rightarrow> None
                | Some r \<Rightarrow> if r = [] then None else Some r)))"

definition rankOrZero :: "Document option \<Rightarrow> string" where
  \<comment> \<open>\<open>item?._metadata?.orderRank || '0'\<close>\<close>
  "rankOrZero item = (case truthyRank item of None \<Rightarrow> ''0'' | Some r \<Rightarrow> r)"

definition hasState :: "string \<Rightarrow> Document \<Rightarrow> bool" where
  "hasState stateId item =
     (case metadata item of None \<Rightarrow> False | Some m \<Rightarrow> state m = stateId)"

definition passesUserFilter :: "string list \<Rightarrow> Document \<Rightarrow> bool" where
  "passesUserFilter selectedUsers item =
     (if selectedUsers = [] then True
      else
        (case metadata item of
           None \<Rightarrow> False
         | Some m \<Rightarrow>
             (case assignees m of
                None \<Rightarrow> False
              | Some as \<Rightarrow>
                  if length as > 0
                  then list_ex (\<lambda>assignee. assignee \<in> set selectedUsers) as
                  else False)))"

definition passesTypeFilter :: "string list option \<Rightarrow> Document \<Rightarrow> bool" where
  "passesTypeFilter selectedSchemaTypes item =
     (case selectedSchemaTypes of
        None \<Rightarrow> True
      | Some ts \<Rightarrow> if ts \<noteq> [] then doc_type item \<in> set ts else False)"

definition filterItemsAndSort ::
    "(string \<Rightarrow> string \<Rightarrow> int) \<Rightarrow> Document list option \<Rightarrow> string \<Rightarrow> string list
       \<Rightarrow> string list option \<Rightarrow> Document list" where
  "filterItemsAndSort localeCompare items stateId selectedUsers selectedSchemaTypes =
     (case items of
        None \<Rightarrow> []
      | Some its \<Rightarrow>
          if its = [] then []
          else
            sort_by (\<lambda>a b. localeCompare (rankOrZero (Some a)) (rankOrZero (Some b)))
              (filter (passesTypeFilter selectedSchemaTypes)
                (filter (passesUserFilter selectedUsers)
                  (filter (hasState stateId)
                    (filter (\<lambda>item. doc_id item \<noteq> []) its)))))"



section \<open>Board: drag start (components/WorkflowTool, \<open>handleDragStart\<close>)\<close>

record BoardState =
  undroppableStates :: "string list"
  draggingFrom :: string

definition statesThatRequireAssignmentIds :: "State list \<Rightarrow> string list" where
  "statesThatRequireAssignmentIds states = map state_id (filter requireAssignment states)"

definition documentAssignees :: "Document \<Rightarrow> string list" where
  \<comment> \<open>\<open>document._metadata?.assignees ?? []\<close>\<close>
  "documentAssignees document =
     (case metadata document of
        None \<Rightarrow> []
      | Some m \<Rightarrow> (case assignees m of None \<Rightarrow> [] | Some as \<Rightarrow> as))"

definition userIsAssignedToDocument :: "CurrentUser option \<Rightarrow> Document \<Rightarrow> bool" where
  "userIsAssignedToDocument user document =
     (case user of
        None \<Rightarrow> False
      | Some u \<Rightarrow>
          if user_id u \<noteq> [] then user_id u \<in> set (documentAssignees document) else False)"

definition statesThatCannotBeTransitionedToIds :: "State list \<Rightarrow> State \<Rightarrow> string list" where
  "statesThatCannotBeTransitionedToIds states sourceState =
     (case transitions sourceState of
        None \<Rightarrow> []
      | Some ts \<Rightarrow>
          if ts \<noteq> [] then map state_id (filter (\<lambda>s. state_id s \<notin> set ts) states) else [])"

definition undroppableStateIds ::
    "State list \<Rightarrow> CurrentUser option \<Rightarrow> Document \<Rightarrow> State \<Rightarrow> string list" where
  "undroppableStateIds states user document sourceState =
     (if statesThatRequireAssignmentIds states \<noteq> []
         \<and> \<not> userIsAssignedToDocument user document
      then statesThatRequireAssignmentIds states else [])
     @ statesThatCannotBeTransitionedToIds states sourceState"

definition undroppableExceptSelf ::
    "State list \<Rightarrow> CurrentUser option \<Rightarrow> Document \<Rightarrow> State \<Rightarrow> string \<Rightarrow> string list" where
  "undroppableExceptSelf states user document sourceState currentStateId =
     filter (\<lambda>i. i \<noteq> currentStateId) (undroppableStateIds states user document sourceState)"

text \<open>
  The handler sets \<open>draggingFrom\<close> first. When the dragged document or the source state
  is not found it returns early and leaves \<open>undroppableStates\<close> as it was.
\<close>

definition handleDragStart ::
    "State list \<Rightarrow> Document list \<Rightarrow> CurrentUser option \<Rightarrow> string \<Rightarrow> string
       \<Rightarrow> BoardState \<Rightarrow> BoardState" where
  "handleDragStart states data user draggableId currentStateId board =
     (let board1 = board\<lparr>draggingFrom := currentStateId\<rparr> in
      case find (\<lambda>item. map_option documentId (metadata item) = Some draggableId) data of
        None \<Rightarrow> board1
      | Some document \<Rightarrow>
          (case find (\<lambda>s. state_id s = currentStateId) states of
             None \<Rightarrow> board1
           | Some sourceState \<Rightarrow>
               board1\<lparr>undroppableStates :=
                 undroppableExceptSelf states user document sourceState currentStateId\<rparr>))"


section \<open>Board: drag end and rank allocation (components/WorkflowTool, \<open>handleDragEnd\<close>)\<close>

text \<open>
  \<open>LexoRank\<close> is the npm package \<open>lexorank\<close>, not part of this repository, so the
  operations the handler calls are a parameter: a record of functions over a rank type
  \<open>'r\<close>. \<open>LexoRank.parse\<close> and \<open>between\<close> can throw; they return \<open>None\<close> then.
  \<open>lexo_less\<close> is the key space's comparison (\<open>compareTo\<close> below zero); the handler
  itself compares ranks only through \<open>toString\<close>.
\<close>

record 'r LexoRank =
  lexo_min :: 'r                                   \<comment> \<open>\<open>LexoRank.min()\<close>\<close>
  lexo_max :: 'r                                   \<comment> \<open>\<open>LexoRank.max()\<close>\<close>
  lexo_parse :: "string \<Rightarrow> 'r option"              \<comment> \<open>\<open>LexoRank.parse(s)\<close>\<close>
  lexo_toString :: "'r \<Rightarrow> string"
  lexo_genNext :: "'r \<Rightarrow> 'r"
  lexo_genPrev :: "'r \<Rightarrow> 'r"
  lexo_between :: "'r \<Rightarrow> 'r \<Rightarrow> 'r option"            \<comment> \<open>\<open>a.between(b)\<close>\<close>
  lexo_less :: "'r \<Rightarrow> 'r \<Rightarrow> bool"

record Location =
  droppableId :: string
  index :: nat

datatype drag_outcome =
    NoMove             \<comment> \<open>no destination, or the position did not change\<close>
  | DataNotAvailable   \<comment> \<open>toast \<open>Document data is not available\<close>\<close>
  | LexoRankThrew      \<comment> \<open>an exception of the rank library leaves the handler\<close>
  | Moved string       \<comment> \<open>\<open>move(draggableId, destination, states, newOrder)\<close>\<close>

fun findIndex :: "('a \<Rightarrow> bool) \<Rightarrow> 'a list \<Rightarrow> int" where
  "findIndex P [] = - 1"
| "findIndex P (x # xs) =
     (if P x then 0 else (let i = findIndex P xs in if i < 0 then - 1 else i + 1))"

definition nth_opt :: "'a list \<Rightarrow> nat \<Rightarrow> 'a option" where
  \<comment> \<open>\<open>xs[i]\<close>, \<open>undefined\<close> out of range\<close>
  "nth_opt xs i = (if i < length xs then Some (xs ! i) else None)"

definition last_opt :: "'a list \<Rightarrow> 'a option" where
  \<comment> \<open>\<open>xs[xs.length - 1]\<close> and \<open>[...xs].pop()\<close>\<close>
  "last_opt xs = (if xs = [] then None else Some (last xs))"

definition betweenOrNext :: "'r LexoRank \<Rightarrow> 'r \<Rightarrow> 'r \<Rightarrow> string option" where
  \<comment> \<open>the check of both neighbours having the same rank, and the rank it leads to\<close>
  "betweenOrNext L itemBeforeRankParsed itemAfterRankParsed =
     (if lexo_toString L itemBeforeRankParsed = lexo_toString L itemAfterRankParsed
      then Some (lexo_toString L (lexo_genNext L itemBeforeRankParsed))
      else map_option (lexo_toString L) (lexo_between L itemBeforeRankParsed itemAfterRankParsed))"

definition newOrder ::
    "'r LexoRank \<Rightarrow> State list \<Rightarrow> Document list \<Rightarrow> int \<Rightarrow> nat \<Rightarrow> string \<Rightarrow> string
       \<Rightarrow> string option" where
  "newOrder L states destinationStateItems destinationStateIndex destIndex
       globalStateMinimumRank globalStateMaximumRank =
     (if destinationStateItems = [] then
        (if destinationStateIndex = 0
         then Some (lexo_toString L (lexo_min L))
         else Some (lexo_toString L (lexo_genNext L (lexo_min L))))
      else if destIndex = 0 then
        (case truthyRank (nth_opt destinationStateItems 0) of
           Some firstItemOrderRank \<Rightarrow>
             map_option (\<lambda>r. lexo_toString L (lexo_genPrev L r))
               (lexo_parse L firstItemOrderRank)
         | None \<Rightarrow>
             if destinationStateIndex = 0 then Some (lexo_toString L (lexo_min L))
             else
               (case lexo_parse L globalStateMinimumRank of
                  None \<Rightarrow> None
                | Some globalMinRank \<Rightarrow>
                    if lexo_toString L (lexo_min L) = lexo_toString L globalMinRank
                    then Some (lexo_toString L (lexo_genNext L (lexo_min L)))
                    else map_option (lexo_toString L)
                           (lexo_between L globalMinRank (lexo_min L))))
      else if destIndex + 1 = length destinationStateItems then
        (case truthyRank (last_opt destinationStateItems) of
           Some lastItemOrderRank \<Rightarrow>
             map_option (\<lambda>r. lexo_toString L (lexo_genNext L r))
               (lexo_parse L lastItemOrderRank)
         | None \<Rightarrow>
             if destinationStateIndex = int (length states) - 1
             then Some (lexo_toString L (lexo_max L))
             else
               (case lexo_parse L globalStateMaximumRank of
                  None \<Rightarrow> None
                | Some globalMaxRank \<Rightarrow>
                    if lexo_toString L (lexo_max L) = lexo_toString L globalMaxRank
                    then Some (lexo_toString L (lexo_genPrev L (lexo_max L)))
                    else map_option (lexo_toString L)
                           (lexo_between L globalMaxRank (lexo_max L))))
      else
        (case (case truthyRank (nth_opt destinationStateItems (destIndex - 1)) of
                 Some itemBeforeRank \<Rightarrow> lexo_parse L itemBeforeRank
               | None \<Rightarrow>
                   if destinationStateIndex = 0 then Some (lexo_min L)
                   else lexo_parse L globalStateMinimumRank) of
           None \<Rightarrow> None
         | Some itemBeforeRankParsed \<Rightarrow>
             (case (case truthyRank (nth_opt destinationStateItems destIndex) of
                      Some itemAfterRank \<Rightarrow> lexo_parse L itemAfterRank
                    | None \<Rightarrow>
                        if destinationStateIndex = int (length states) - 1
                        then Some (lexo_max L)
                        else lexo_parse L globalStateMaximumRank) of
                None \<Rightarrow> None
              | Some itemAfterRankParsed \<Rightarrow>
                  betweenOrNext L itemBeforeRankParsed itemAfterRankParsed)))"

definition handleDragEnd ::
    "'r LexoRank \<Rightarrow> (string \<Rightarrow> string \<Rightarrow> int) \<Rightarrow> State list \<Rightarrow> Document list
       \<Rightarrow> Location \<Rightarrow> Location option \<Rightarrow> drag_outcome" where
  "handleDragEnd L localeCompare states data source destination =
     (case destination of
        None \<Rightarrow> NoMove
      | Some dest \<Rightarrow>
          if droppableId dest = droppableId source \<and> index dest = index source then NoMove
          else if data = [] then DataNotAvailable
          else
            (let destinationStateItems =
                   filterItemsAndSort localeCompare (Some data) (droppableId dest) [] None;
                 destinationStateIndex =
                   findIndex (\<lambda>s. state_id s = droppableId dest) states;
                 globalStateMinimumRank = rankOrZero (nth_opt data 0);
                 globalStateMaximumRank = rankOrZero (last_opt data)
             in case newOrder L states destinationStateItems destinationStateIndex
                       (index dest) globalStateMinimumRank globalStateMaximumRank of
                  None \<Rightarrow> LexoRankThrew
                | Some r \<Rightarrow> Moved r))"


section \<open>Plugin construction (\<open>workflowManager\<close>)\<close>

text \<open>
  A property of the configuration object is absent, present with the value
  \<open>undefined\<close>, or present with a list. The object spread
  \<open>{...DEFAULT_CONFIG, ...config}\<close> takes a property from \<open>config\<close> whenever
  \<open>config\<close> has the key, also when its value is \<open>undefined\<close>. \<open>DEFAULT_CONFIG\<close>
  (constants.ts) is a parameter.
\<close>

datatype 'a property = Absent | Undefined | Value 'a

record WorkflowConfig =
  config_schemaTypes :: "string list property"     \<comment> \<open>\<open>schemaTypes\<close>\<close>
  config_states :: "State list property"           \<comment> \<open>\<open>states\<close>\<close>

datatype config_error = MissingStates | MissingSchemaTypes

record Plugin =
  plugin_name :: string
  plugin_schemaTypes :: "string list"
  plugin_states :: "State list"

definition spread :: "'a property \<Rightarrow> 'a property \<Rightarrow> 'a property" where
  "spread dflt given = (case given of Absent \<Rightarrow> dflt | _ \<Rightarrow> given)"

definition workflowManager ::
    "WorkflowConfig \<Rightarrow> WorkflowConfig option \<Rightarrow> config_error + Plugin" where
  "workflowManager DEFAULT_CONFIG configArg =
     (let config = (case configArg of None \<Rightarrow> DEFAULT_CONFIG | Some c \<Rightarrow> c);
          schemaTypes = spread (config_schemaTypes DEFAULT_CONFIG) (config_schemaTypes config);
          states = spread (config_states DEFAULT_CONFIG) (config_states config)
      in case states of
           Value (s # ss) \<Rightarrow>
             (case schemaTypes of
                Value (t # ts) \<Rightarrow>
                  Inr \<lparr>plugin_name = ''sanity-plugin-workflow-manager'',
                       plugin_schemaTypes = t # ts, plugin_states = s # ss\<rparr>
              | _ \<Rightarrow> Inl MissingSchemaTypes)
         | _ \<Rightarrow> Inl MissingStates)"


section \<open>What the rank library is expected to provide\<close>



section \<open>A small key space for the examples\<close>

text \<open>
  Fractions \<open>p/q\<close> between 0 and 1, written in unary (\<open>p\<close> times \<open>n\<close>, then \<open>q\<close> times
  \<open>d\<close>) and compared by cross multiplication; \<open>between\<close> is the midpoint and refuses
  two equal ranks, \<open>genNext\<close> goes halfway to the maximum, \<open>genPrev\<close> halfway to the
  minimum. \<open>compareCodeUnits\<close> is a comparator that orders strings by their characters.
\<close>

type_synonym fraction = "nat \<times> nat"

definition fraction_less :: "fraction \<Rightarrow> fraction \<Rightarrow> bool" where
  "fraction_less a b = (0 < snd a \<and> 0 < snd b \<and> fst a * snd b < fst b * snd a)"

definition fraction_toString :: "fraction \<Rightarrow> string" where
  "fraction_toString a = replicate (fst a) CHR ''n'' @ replicate (snd a) CHR ''d''"

definition fraction_parse :: "string \<Rightarrow> fraction option" where
  "fraction_parse s =
     (let p = length (filter (\<lambda>c. c = CHR ''n'') s);
          q = length (filter (\<lambda>c. c = CHR ''d'') s)
      in if q = 0 \<or> s \<noteq> fraction_toString (p, q) then None else Some (p, q))"

definition fraction_between :: "fraction \<Rightarrow> fraction \<Rightarrow> fraction option" where
  "fraction_between a b =
     (if fraction_less a b \<or> fraction_less b a
      then Some (fst a * snd b + fst b * snd a, 2 * snd a * snd b)
      else None)"

definition fractionRanks :: "fraction LexoRank" where
  "fractionRanks =
     \<lparr>lexo_min = (0, 1), lexo_max = (1, 1),
      lexo_parse = fraction_parse, lexo_toString = fraction_toString,
      lexo_genNext = (\<lambda>a. (fst a + snd a, 2 * snd a)),
      lexo_genPrev = (\<lambda>a. (fst a, 2 * snd a)),
      lexo_between = fraction_between,
      lexo_less = fraction_less\<rparr>"

fun compareCodeUnits :: "string \<Rightarrow> string \<Rightarrow> int" where
  "compareCodeUnits [] [] = 0"
| "compareCodeUnits [] (y # ys) = - 1"
| "compareCodeUnits (x # xs) [] = 1"
| "compareCodeUnits (x # xs) (y # ys) =
     (if (of_char x :: nat) < of_char y then - 1
      else if (of_char y :: nat) < of_char x then 1
      else compareCodeUnits xs ys)"

definition boardCard :: "string \<Rightarrow> string \<Rightarrow> string list \<Rightarrow> string \<Rightarrow> Document" where
  \<comment> \<open>a document on the board: id, state, assignees, rank\<close>
  "boardCard i st as r =
     \<lparr>doc_id = i, doc_type = ''post'',
      metadata = Some \<lparr>documentId = i, state = st, assignees = Some as, orderRank = Some r\<rparr>\<rparr>"

definition column :: "string \<Rightarrow> string list option \<Rightarrow> bool \<Rightarrow> State" where
  \<comment> \<open>a configured state: id, transitions, requireAssignment\<close>
  "column i ts ra =
     \<lparr>state_id = i, title = i, roles = None, transitions = ts,
      requireAssignment = ra, requireValidation = False\<rparr>"



definition threeStates :: "State list" where
  "threeStates =
     [column ''draft'' None False, column ''review'' None True,
      column ''approved'' None True]"

text \<open>
  \<open>DEFAULT_CONFIG\<close> (constants.ts) is not among the sources. README.md lists the
  states used "if no custom states are provided"; \<open>readmeDefaultConfig\<close> is that list.
  The README names no default document types, so the default \<open>schemaTypes\<close> is the
  empty list here; the example below passes its own.
\<close>

definition readmeDefaultConfig :: WorkflowConfig where
  "readmeDefaultConfig =
     \<lparr>config_schemaTypes = Value [],
      config_states = Value
        [\<lparr>state_id = ''inReview'', title = ''In review'',
          roles = Some [''editor'', ''administrator''],
          transitions = Some [''changesRequested'', ''approved''],
          requireAssignment = False, requireValidation = False\<rparr>,
         \<lparr>state_id = ''changesRequested'', title = ''Changes requested'',
          roles = Some [''editor'', ''administrator''],
          transitions = Some [''approved''],
          requireAssignment = False, requireValidation = False\<rparr>,
         \<lparr>state_id = ''approved'', title = ''Approved'',
          roles = Some [''administrator''],
          transitions = Some [''changesRequested''],
          requireAssignment = True, requireValidation = False\<rparr>]\<rparr>"

definition listMissingOrEmpty :: "'a list property \<Rightarrow> bool" where
  \<comment> \<open>\<open>!xs?.length\<close>\<close>
  "listMissingOrEmpty p = (case p of Value (x # xs) \<Rightarrow> False | _ \<Rightarrow> True)"


section \<open>Auxiliary facts\<close>

lemma set_insert_by: "set (insert_by cmp x xs) = insert x (set xs)"
  by (induction xs) auto

lemma set_sort_by: "set (sort_by cmp xs) = set xs"
  unfolding sort_by_def by (induction xs) (simp_all add: set_insert_by)

lemma findIndex_ge: "- 1 \<le> findIndex P xs"
  by (induction xs) (auto simp: Let_def)

lemma findIndex_first: "findIndex P xs = 0 \<longleftrightarrow> xs \<noteq> [] \<and> P (hd xs)"
proof (cases xs)
  case Nil
  then show ?thesis by simp
next
  case (Cons x ys)
  with findIndex_ge [of P ys] show ?thesis by (auto simp: Let_def)
qed





section \<open>Properties of the dependency guard\<close>

text \<open>
  C3 as stated fails at its own first example: the handler does not compare the
  candidate with the document's own id, and \<open>addDependency(doc, doc, [])\<close> yields
  \<open>[doc]\<close>, not the circular rejection.
\<close>

theorem addDependency_self_counterexample:
  "handleAddDependency ''doc'' [] ''doc'' = Added [''doc'']
   \<and> handleAddDependency ''doc'' [] ''doc'' \<noteq> Circular"
  by (simp add: handleAddDependency_def hasCircularDependency_def)

text \<open>
  C3, amended: the handler rejects a candidate that is already in the current list as
  a duplicate, and otherwise succeeds with the current list and the candidate appended
  to it, whatever the document's own id is.
\<close>

theorem addDependency_checks_in_order:
  "(x \<in> set deps \<longrightarrow> handleAddDependency ownId deps x = Duplicate)
   \<and> (x \<notin> set deps \<longrightarrow> handleAddDependency ownId deps x = Added (deps @ [x]))"
  by (simp add: handleAddDependency_def hasCircularDependency_def)

theorem addDependency_checks_in_order_witness:
  "''X'' \<in> set [''X''] \<and> handleAddDependency ''doc'' [''X''] ''X'' = Duplicate
   \<and> ''Y'' \<notin> set [] \<and> handleAddDependency ''doc'' [] ''Y'' = Added [''Y'']"
  using addDependency_checks_in_order [of "''X''" "[''X'']" "''doc''"]
    addDependency_checks_in_order [of "''Y''" "[]" "''doc''"]
  by simp

text \<open>
  C8: for a candidate \<open>x\<close> that is not in \<open>deps\<close>, adding succeeds with \<open>deps @ [x]\<close>
  and removing \<open>x\<close> from that result gives \<open>deps\<close> back. Removal takes out every
  occurrence of the target and keeps all other entries in their order: it leaves a
  list without the target as it is, leaves no occurrence in any list, distributes over
  concatenation, empties the list of the target alone and keeps the list of any other
  single entry, so the entries after an occurrence of the target are kept.
\<close>

theorem add_then_remove_roundtrip:
  "x \<notin> set deps \<Longrightarrow>
     handleAddDependency d deps x = Added (deps @ [x])
     \<and> handleRemoveDependency (deps @ [x]) x = deps
     \<and> handleRemoveDependency deps x = deps
     \<and> x \<notin> set (handleRemoveDependency ys x)
     \<and> handleRemoveDependency (ys @ zs) x
         = handleRemoveDependency ys x @ handleRemoveDependency zs x
     \<and> handleRemoveDependency [x] x = []
     \<and> (y \<noteq> x \<longrightarrow> handleRemoveDependency [y] x = [y])
     \<and> handleRemoveDependency (ys @ x # deps) x = handleRemoveDependency ys x @ deps"
  by (auto simp add: handleAddDependency_def hasCircularDependency_def
      handleRemoveDependency_def filter_id_conv)

theorem add_then_remove_roundtrip_witness:
  "''c'' \<notin> set [''a'', ''b'']
   \<and> handleAddDependency ''d'' [''a'', ''b''] ''c'' = Added [''a'', ''b'', ''c'']
   \<and> handleRemoveDependency [''a'', ''b'', ''c''] ''c'' = [''a'', ''b'']
   \<and> handleRemoveDependency [''a'', ''b''] ''c'' = [''a'', ''b'']
   \<and> ''c'' \<notin> set (handleRemoveDependency [''c'', ''a'', ''c''] ''c'')
   \<and> handleRemoveDependency ([''c'', ''a'', ''c''] @ [''b'', ''c'']) ''c'' = [''a'', ''b'']
   \<and> handleRemoveDependency [''c''] ''c'' = []
   \<and> ''a'' \<noteq> ''c'' \<and> handleRemoveDependency [''a''] ''c'' = [''a'']
   \<and> handleRemoveDependency [''c'', ''a'', ''b''] ''c'' = [''a'', ''b'']
   \<and> handleRemoveDependency ([''c'', ''a'', ''c''] @ ''c'' # [''a'', ''b'']) ''c''
       = [''a'', ''a'', ''b'']"
  using add_then_remove_roundtrip
    [of "''c''" "[''a'', ''b'']" "''d''" "[''c'', ''a'', ''c'']" "[''b'', ''c'']" "''a''"]
    add_then_remove_roundtrip
    [of "''c''" "[''a'', ''b'']" "''d''" "[]" "[]" "''a''"]
  by (simp add: handleRemoveDependency_def)

text \<open>
  C10: no call of \<open>handleAddDependency\<close> reports the circular rejection.
  \<open>hasCircularDependency\<close> holds exactly when the candidate is already in the current
  list, and exactly then the handler has returned \<open>Duplicate\<close> before the circular
  check is reached.
\<close>

theorem circular_branch_unreachable:
  "handleAddDependency ownId deps x \<noteq> Circular
   \<and> hasCircularDependency deps x = (x \<in> set deps)
   \<and> (handleAddDependency ownId deps x = Duplicate) = hasCircularDependency deps x"
  by (simp add: handleAddDependency_def hasCircularDependency_def)


section \<open>Properties of the transition permission\<close>

text \<open>
  C2: the role check does not follow the claim on two kinds of input. A user who holds
  no role at all passes the role check of a state restricted to \<open>administrator\<close>, and a
  state whose \<open>roles\<close> is the empty list is closed to every user, an administrator
  included. Both evaluated here, with no assignment required.
\<close>

theorem canUserTransitionToState_ignores_roles_of_roleless_user:
  "canUserTransitionToState
     (Some \<lparr>user_id = ''u1'', user_roles = []\<rparr>)
     (Some \<lparr>state_id = ''approved'', title = ''Approved'', roles = Some [''administrator''],
            transitions = Some [''changesRequested''], requireAssignment = False,
            requireValidation = False\<rparr>)
     (Some [])
   \<and> \<not> canUserTransitionToState
     (Some \<lparr>user_id = ''u1'', user_roles = [\<lparr>name = ''administrator''\<rparr>]\<rparr>)
     (Some \<lparr>state_id = ''draft'', title = ''Draft'', roles = Some [],
            transitions = None, requireAssignment = False, requireValidation = False\<rparr>)
     (Some [])"
  by (simp add: canUserTransitionToState_def userRoleCanUpdateState_def
      userAssignmentCanUpdateState_def)


section \<open>Properties of the list filter\<close>

text \<open>
  C7: with a non-empty \<open>selectedUsers\<close> an item without assignees is not in the
  result, whatever the other filters say; with an empty \<open>selectedUsers\<close> every item
  that has an id, is in the state and passes the type filter is in the result.
\<close>

theorem user_filter_hides_unassigned:
  "(selectedUsers \<noteq> [] \<and> documentAssignees item = []
      \<longrightarrow> item \<notin> set (filterItemsAndSort localeCompare items stateId selectedUsers selectedSchemaTypes))
   \<and> (item \<in> set its \<and> doc_id item \<noteq> [] \<and> hasState stateId item
        \<and> passesTypeFilter selectedSchemaTypes item
      \<longrightarrow> item \<in> set (filterItemsAndSort localeCompare (Some its) stateId [] selectedSchemaTypes))"
  by (auto simp: filterItemsAndSort_def set_sort_by passesUserFilter_def documentAssignees_def
      split: option.splits)

theorem user_filter_hides_unassigned_witness:
  "[''u1''] \<noteq> [] \<and> documentAssignees (boardCard ''D'' ''draft'' [] ''nd'') = []
   \<and> boardCard ''D'' ''draft'' [] ''nd'' \<notin> set (filterItemsAndSort compareCodeUnits
        (Some [boardCard ''D'' ''draft'' [] ''nd'', boardCard ''E'' ''draft'' [''u1''] ''d''])
        ''draft'' [''u1''] None)
   \<and> filterItemsAndSort compareCodeUnits
        (Some [boardCard ''D'' ''draft'' [] ''nd'', boardCard ''E'' ''draft'' [''u1''] ''d''])
        ''draft'' [''u1''] None = [boardCard ''E'' ''draft'' [''u1''] ''d'']
   \<and> boardCard ''D'' ''draft'' [] ''nd''
        \<in> set [boardCard ''D'' ''draft'' [] ''nd'', boardCard ''E'' ''draft'' [''u1''] ''d'']
   \<and> doc_id (boardCard ''D'' ''draft'' [] ''nd'') \<noteq> []
   \<and> hasState ''draft'' (boardCard ''D'' ''draft'' [] ''nd'')
   \<and> passesTypeFilter None (boardCard ''D'' ''draft'' [] ''nd'')
   \<and> boardCard ''D'' ''draft'' [] ''nd'' \<in> set (filterItemsAndSort compareCodeUnits
        (Some [boardCard ''D'' ''draft'' [] ''nd'', boardCard ''E'' ''draft'' [''u1''] ''d''])
        ''draft'' [] None)
   \<and> filterItemsAndSort compareCodeUnits
        (Some [boardCard ''D'' ''draft'' [] ''nd'', boardCard ''E'' ''draft'' [''u1''] ''d''])
        ''draft'' [] None
      = [boardCard ''E'' ''draft'' [''u1''] ''d'', boardCard ''D'' ''draft'' [] ''nd'']"
  using user_filter_hides_unassigned
    [of "[''u1'']" "boardCard ''D'' ''draft'' [] ''nd''" compareCodeUnits
        "Some [boardCard ''D'' ''draft'' [] ''nd'', boardCard ''E'' ''draft'' [''u1''] ''d'']"
        "''draft''" None
        "[boardCard ''D'' ''draft'' [] ''nd'', boardCard ''E'' ''draft'' [''u1''] ''d'']"]
  by (simp add: boardCard_def filterItemsAndSort_def sort_by_def passesUserFilter_def
      passesTypeFilter_def hasState_def documentAssignees_def rankOrZero_def truthyRank_def)


section \<open>Properties of the drag start\<close>

text \<open>
  C5: when the handler finds the dragged document and the source state, the undroppable
  states it sets do not contain the source state; in every case, a source state that
  was not undroppable before the drag start is not undroppable after it.
\<close>

theorem source_state_never_undroppable:
  "(find (\<lambda>item. map_option documentId (metadata item) = Some draggableId) data \<noteq> None
      \<and> find (\<lambda>s. state_id s = currentStateId) states \<noteq> None
     \<longrightarrow> currentStateId \<notin> set (undroppableStates
            (handleDragStart states data user draggableId currentStateId board)))
   \<and> (currentStateId \<notin> set (undroppableStates board)
     \<longrightarrow> currentStateId \<notin> set (undroppableStates
            (handleDragStart states data user draggableId currentStateId board)))"
  by (auto simp: handleDragStart_def undroppableExceptSelf_def Let_def split: option.splits)

theorem source_state_never_undroppable_witness:
  "find (\<lambda>item. map_option documentId (metadata item) = Some ''D'')
       [boardCard ''D'' ''review'' [] ''nd''] \<noteq> None
   \<and> find (\<lambda>s. state_id s = ''review'')
       [column ''draft'' (Some [''review'']) False, column ''review'' (Some [''draft'']) True] \<noteq> None
   \<and> ''review'' \<notin> set (undroppableStates \<lparr>undroppableStates = [], draggingFrom = []\<rparr>)
   \<and> ''review'' \<notin> set (undroppableStates
        (handleDragStart
           [column ''draft'' (Some [''review'']) False, column ''review'' (Some [''draft'']) True]
           [boardCard ''D'' ''review'' [] ''nd'']
           (Some \<lparr>user_id = ''u1'', user_roles = []\<rparr>) ''D'' ''review''
           \<lparr>undroppableStates = [], draggingFrom = []\<rparr>))
   \<and> undroppableStateIds
        [column ''draft'' (Some [''review'']) False, column ''review'' (Some [''draft'']) True]
        (Some \<lparr>user_id = ''u1'', user_roles = []\<rparr>) (boardCard ''D'' ''review'' [] ''nd'')
        (column ''review'' (Some [''draft'']) True) = [''review'', ''review'']"
  using source_state_never_undroppable
    [of "''D''" "[boardCard ''D'' ''review'' [] ''nd'']" "''review''"
        "[column ''draft'' (Some [''review'']) False, column ''review'' (Some [''draft'']) True]"
        "Some \<lparr>user_id = ''u1'', user_roles = []\<rparr>"
        "\<lparr>undroppableStates = [], draggingFrom = []\<rparr>"]
  by (simp add: boardCard_def column_def undroppableStateIds_def
      statesThatRequireAssignmentIds_def userIsAssignedToDocument_def documentAssignees_def
      statesThatCannotBeTransitionedToIds_def)

text \<open>
  C6 as stated fails for the source state: a document in \<open>review\<close>, which requires
  assignment, dragged by a user who is not assigned, leaves \<open>review\<close> droppable.
\<close>

theorem source_state_requiring_assignment_counterexample:
  "requireAssignment (column ''review'' None True)
   \<and> column ''review'' None True \<in> set [column ''draft'' None False, column ''review'' None True]
   \<and> ''u1'' \<notin> set (documentAssignees (boardCard ''D'' ''review'' [] ''nd''))
   \<and> state_id (column ''review'' None True) \<notin> set (undroppableStates
        (handleDragStart [column ''draft'' None False, column ''review'' None True]
           [boardCard ''D'' ''review'' [] ''nd'']
           (Some \<lparr>user_id = ''u1'', user_roles = []\<rparr>) ''D'' ''review''
           \<lparr>undroppableStates = [], draggingFrom = []\<rparr>))"
  by (simp add: boardCard_def column_def handleDragStart_def undroppableExceptSelf_def
      undroppableStateIds_def statesThatRequireAssignmentIds_def userIsAssignedToDocument_def
      documentAssignees_def statesThatCannotBeTransitionedToIds_def)

text \<open>
  C6, amended: when the handler finds the dragged document and the source state, a
  configured state that requires assignment and is not the source state is undroppable
  if the current user's id is not among the document's assignees (or no user is signed
  in). If the user's non-empty id is among them, the undroppable states are exactly
  those of the transition rule, without the source state.
\<close>

theorem assignment_rule_excludes_other_states:
  assumes doc: "find (\<lambda>item. map_option documentId (metadata item) = Some draggableId) data
                  = Some document"
      and src: "find (\<lambda>s. state_id s = currentStateId) states = Some sourceState"
      and st: "st \<in> set states" "requireAssignment st" "state_id st \<noteq> currentStateId"
  shows "((\<forall>u. user = Some u \<longrightarrow> user_id u \<notin> set (documentAssignees document))
          \<longrightarrow> state_id st \<in> set (undroppableStates
                 (handleDragStart states data user draggableId currentStateId board)))
       \<and> ((\<exists>u. user = Some u \<and> user_id u \<noteq> [] \<and> user_id u \<in> set (documentAssignees document))
          \<longrightarrow> undroppableStates (handleDragStart states data user draggableId currentStateId board)
                = filter (\<lambda>i. i \<noteq> currentStateId)
                    (statesThatCannotBeTransitionedToIds states sourceState))"
proof -
  have u: "undroppableStates (handleDragStart states data user draggableId currentStateId board)
             = undroppableExceptSelf states user document sourceState currentStateId"
    using doc src by (simp add: handleDragStart_def Let_def)
  have req: "state_id st \<in> set (statesThatRequireAssignmentIds states)"
    using st by (auto simp: statesThatRequireAssignmentIds_def)
  show ?thesis
    unfolding u undroppableExceptSelf_def undroppableStateIds_def
    using req st(3)
    by (auto simp: userIsAssignedToDocument_def split: option.splits)
qed

theorem assignment_rule_excludes_other_states_witness:
  "state_id (column ''review'' None True) \<in> set (undroppableStates
     (handleDragStart threeStates [boardCard ''D'' ''draft'' [] ''nd'']
        (Some \<lparr>user_id = ''u1'', user_roles = []\<rparr>) ''D'' ''draft''
        \<lparr>undroppableStates = [], draggingFrom = []\<rparr>))
   \<and> undroppableStates
        (handleDragStart threeStates [boardCard ''D'' ''draft'' [''u1''] ''nd'']
           (Some \<lparr>user_id = ''u1'', user_roles = []\<rparr>) ''D'' ''draft''
           \<lparr>undroppableStates = [], draggingFrom = []\<rparr>) = []"
  using assignment_rule_excludes_other_states
    [of "''D''" "[boardCard ''D'' ''draft'' [] ''nd'']" "boardCard ''D'' ''draft'' [] ''nd''"
        "''draft''" threeStates "column ''draft'' None False" "column ''review'' None True"
        "Some \<lparr>user_id = ''u1'', user_roles = []\<rparr>"
        "\<lparr>undroppableStates = [], draggingFrom = []\<rparr>"]
    assignment_rule_excludes_other_states
    [of "''D''" "[boardCard ''D'' ''draft'' [''u1''] ''nd'']"
        "boardCard ''D'' ''draft'' [''u1''] ''nd''"
        "''draft''" threeStates "column ''draft'' None False" "column ''review'' None True"
        "Some \<lparr>user_id = ''u1'', user_roles = []\<rparr>"
        "\<lparr>undroppableStates = [], draggingFrom = []\<rparr>"]
  by (simp add: threeStates_def boardCard_def column_def documentAssignees_def
      statesThatCannotBeTransitionedToIds_def)


section \<open>Properties of the rank allocation\<close>

text \<open>
  C4: a move into a state without items gets the minimum key when the destination is
  the first configured state, and the key after the minimum otherwise; where the
  library's key after the minimum differs from the minimum, the second case never
  yields the minimum.
\<close>

theorem empty_state_allocation:
  assumes moved: "\<not> (droppableId dest = droppableId source \<and> index dest = index source)"
      and data: "data \<noteq> []"
      and empty: "filterItemsAndSort localeCompare (Some data) (droppableId dest) [] None = []"
  shows "handleDragEnd L localeCompare states data source (Some dest)
           = Moved (lexo_toString L
               (if states \<noteq> [] \<and> state_id (hd states) = droppableId dest
                then lexo_min L else lexo_genNext L (lexo_min L)))
         \<and> (lexo_toString L (lexo_genNext L (lexo_min L)) \<noteq> lexo_toString L (lexo_min L)
              \<and> \<not> (states \<noteq> [] \<and> state_id (hd states) = droppableId dest)
            \<longrightarrow> handleDragEnd L localeCompare states data source (Some dest)
                  \<noteq> Moved (lexo_toString L (lexo_min L)))"
  using moved data empty
  by (simp add: handleDragEnd_def Let_def newOrder_def findIndex_first)

theorem empty_state_allocation_witness:
  "handleDragEnd fractionRanks compareCodeUnits threeStates
      [boardCard ''X'' ''draft'' [] ''nd'']
      \<lparr>droppableId = ''draft'', index = 0\<rparr> (Some \<lparr>droppableId = ''review'', index = 0\<rparr>)
     = Moved ''ndd''
   \<and> handleDragEnd fractionRanks compareCodeUnits threeStates
      [boardCard ''X'' ''review'' [] ''nd'']
      \<lparr>droppableId = ''review'', index = 0\<rparr> (Some \<lparr>droppableId = ''draft'', index = 0\<rparr>)
     = Moved ''d''"
  using empty_state_allocation
    [of "\<lparr>droppableId = ''review'', index = 0\<rparr>" "\<lparr>droppableId = ''draft'', index = 0\<rparr>"
        "[boardCard ''X'' ''draft'' [] ''nd'']" compareCodeUnits fractionRanks threeStates]
    empty_state_allocation
    [of "\<lparr>droppableId = ''draft'', index = 0\<rparr>" "\<lparr>droppableId = ''review'', index = 0\<rparr>"
        "[boardCard ''X'' ''review'' [] ''nd'']" compareCodeUnits fractionRanks threeStates]
  by (simp add: threeStates_def boardCard_def column_def filterItemsAndSort_def sort_by_def
      hasState_def passesUserFilter_def passesTypeFilter_def fractionRanks_def
      fraction_toString_def numeral_eq_Suc)





section \<open>Properties of the plugin construction\<close>

text \<open>
  C9 as stated fails for a configuration without a \<open>states\<close> key: the default states
  take its place and construction succeeds.
\<close>

theorem missing_states_counterexample:
  "listMissingOrEmpty
     (config_states \<lparr>config_schemaTypes = Value [''post''], config_states = Absent\<rparr>)
   \<and> \<not> isl (workflowManager readmeDefaultConfig
        (Some \<lparr>config_schemaTypes = Value [''post''], config_states = Absent\<rparr>))"
  by (simp add: listMissingOrEmpty_def workflowManager_def spread_def readmeDefaultConfig_def)

text \<open>
  C9, amended: construction throws exactly when, after the configuration is laid over
  the defaults (a key the configuration lacks takes the default's value), the states
  list or the schemaTypes list is undefined or empty. A configuration that gives both
  lists non-empty constructs the plugin from them; one that gives \<open>states\<close> as
  undefined or empty throws for the states, and one that gives good states and
  \<open>schemaTypes\<close> as undefined or empty throws for the schemaTypes. Without an argument
  the defaults are the configuration.
\<close>

theorem construction_throws_iff:
  "(isl (workflowManager DEFAULT_CONFIG (Some config))
      \<longleftrightarrow> listMissingOrEmpty (spread (config_states DEFAULT_CONFIG) (config_states config))
          \<or> listMissingOrEmpty
               (spread (config_schemaTypes DEFAULT_CONFIG) (config_schemaTypes config)))
   \<and> (config_states config = Value ss \<and> ss \<noteq> [] \<and> config_schemaTypes config = Value ts \<and> ts \<noteq> []
      \<longrightarrow> workflowManager DEFAULT_CONFIG (Some config)
            = Inr \<lparr>plugin_name = ''sanity-plugin-workflow-manager'',
                   plugin_schemaTypes = ts, plugin_states = ss\<rparr>)
   \<and> (config_states config \<noteq> Absent \<and> listMissingOrEmpty (config_states config)
      \<longrightarrow> workflowManager DEFAULT_CONFIG (Some config) = Inl MissingStates)
   \<and> (config_states config = Value ss \<and> ss \<noteq> []
        \<and> config_schemaTypes config \<noteq> Absent \<and> listMissingOrEmpty (config_schemaTypes config)
      \<longrightarrow> workflowManager DEFAULT_CONFIG (Some config) = Inl MissingSchemaTypes)
   \<and> workflowManager DEFAULT_CONFIG None = workflowManager DEFAULT_CONFIG (Some DEFAULT_CONFIG)"
  by (auto simp: workflowManager_def spread_def listMissingOrEmpty_def Let_def
      split: property.splits list.splits)

theorem construction_throws_iff_witness:
  "workflowManager readmeDefaultConfig
      (Some \<lparr>config_schemaTypes = Value [''post''], config_states = Value threeStates\<rparr>)
     = Inr \<lparr>plugin_name = ''sanity-plugin-workflow-manager'',
            plugin_schemaTypes = [''post''], plugin_states = threeStates\<rparr>
   \<and> workflowManager readmeDefaultConfig
      (Some \<lparr>config_schemaTypes = Value [''post''], config_states = Value []\<rparr>)
     = Inl MissingStates
   \<and> workflowManager readmeDefaultConfig
      (Some \<lparr>config_schemaTypes = Undefined, config_states = Value threeStates\<rparr>)
     = Inl MissingSchemaTypes
   \<and> isl (workflowManager readmeDefaultConfig
      (Some \<lparr>config_schemaTypes = Absent, config_states = Absent\<rparr>))"
  using construction_throws_iff
    [of readmeDefaultConfig
        "\<lparr>config_schemaTypes = Value [''post''], config_states = Value threeStates\<rparr>"
        threeStates "[''post'']"]
    construction_throws_iff
    [of readmeDefaultConfig
        "\<lparr>config_schemaTypes = Value [''post''], config_states = Value []\<rparr>"]
    construction_throws_iff
    [of readmeDefaultConfig
        "\<lparr>config_schemaTypes = Undefined, config_states = Value threeStates\<rparr>"
        threeStates]
    construction_throws_iff
    [of readmeDefaultConfig "\<lparr>config_schemaTypes = Absent, config_states = Absent\<rparr>"]
  by (simp add: threeStates_def listMissingOrEmpty_def spread_def readmeDefaultConfig_def)

end
